theory Spec2Isabelle
  imports Complex_Main "HOL-Library.Sublist"
begin

section \<open>Strings\<close>

text \<open>
  Source strings are modelled as \<open>string\<close>, read as the UTF-8 bytes of the text. The
  needles searched for by the component (\<open>unavailable\<close>, \<open>out\<close>, \<open>none\<close>, \<open>high\<close>,
  \<open>low\<close>, digits, \<open>h\<close>) are ASCII, and an ASCII byte never occurs inside the encoding
  of a non-ASCII character, so searching the bytes finds what searching the characters
  finds. The fixed Chinese texts of the component are given as their UTF-8 bytes, named
  after their meaning, with the code points in the comment.
\<close>

text \<open>\<open>String.prototype.includes\<close> (the name is a keyword of Isabelle): the needle occurs at
  some position of the string.\<close>

fun str_includes :: "string \<Rightarrow> string \<Rightarrow> bool" where
  "str_includes [] needle = (needle = [])"
| "str_includes (c # cs) needle = (prefix needle (c # cs) \<or> str_includes cs needle)"

text \<open>\<open>String.prototype.toLowerCase\<close> on the ASCII letters; other bytes are kept.\<close>

definition toLowerChar :: "char \<Rightarrow> char" where
  "toLowerChar c =
     (if c \<in> set ''ABCDEFGHIJKLMNOPQRSTUVWXYZ'' then char_of (of_char c + (32::nat)) else c)"

definition toLowerCase :: "string \<Rightarrow> string" where
  "toLowerCase s = map toLowerChar s"

text \<open>The regular-expression class \<open>\d\<close> (no unicode flag): the ten ASCII digits.\<close>

definition isDigit :: "char \<Rightarrow> bool" where
  "isDigit c = (c \<in> set ''0123456789'')"

text \<open>The character after the digits: \<open>h\<close> under the flag \<open>i\<close>.\<close>

definition isHourMark :: "char \<Rightarrow> bool" where
  "isHourMark x = (x = CHR ''h'' \<or> x = CHR ''H'')"

text \<open>
  \<open>/(\d+)h/i.exec(s)\<close>, capture group 1. The matcher tries every start position from
  the left; at a position holding a digit, \<open>\d+\<close> takes the whole run of digits, and
  the match succeeds when the next character is \<open>h\<close> or \<open>H\<close> (giving up digits of the
  run cannot help, the character after a shorter run being a digit). The second
  alternative of the source, \<open>/(\d+)H/.exec(s)\<close>, is only tried when the first finds
  nothing, and then finds nothing either.
\<close>

fun hourMatch :: "string \<Rightarrow> string option" where
  "hourMatch [] = None"
| "hourMatch (c # cs) =
     (if isDigit c then
        (case dropWhile isDigit (c # cs) of
           [] \<Rightarrow> hourMatch cs
         | x # _ \<Rightarrow>
             if isHourMark x then Some (takeWhile isDigit (c # cs))
             else hourMatch cs)
      else hourMatch cs)"

text \<open>
  \<open>parseInt\<close> on a string of decimal digits. The source compares the result with 1 and
  with 24 only; the rounding of \<open>parseInt\<close> on very long digit strings does not move a
  value across either bound, so the exact natural number is used.
\<close>

definition digitVal :: "char \<Rightarrow> nat" where
  "digitVal c = of_char c - 48"

definition parseInt :: "string \<Rightarrow> nat" where
  "parseInt ds = foldl (\<lambda>a c. 10 * a + digitVal c) 0 ds"

section \<open>Availability of a plan in a datacenter (ServerCard.tsx, getAvailabilityInfo)\<close>

datatype availability_status = Unknown | Unavailable | Available | Soon

datatype icon = ClockMuted | XCircleRed | CheckCircleGreen | AlertCircleYellow

record availability_info =
  availability :: availability_status
  icon :: icon
  label :: string


definition label_unknown :: string where
  \<comment> \<open>line 202, U+672A U+77E5, "unknown"\<close>
  "label_unknown = [CHR 0xE6, CHR 0x9C, CHR 0xAA, CHR 0xE7, CHR 0x9F, CHR 0xA5]"

definition label_out_of_stock :: string where
  \<comment> \<open>lines 211 and 222, U+65E0 U+8D27, "out of stock"\<close>
  "label_out_of_stock = [CHR 0xE6, CHR 0x97, CHR 0xA0, CHR 0xE8, CHR 0xB4, CHR 0xA7]"

definition label_in_stock :: string where
  \<comment> \<open>lines 238 and 267, U+6709 U+8D27, "in stock"\<close>
  "label_in_stock = [CHR 0xE6, CHR 0x9C, CHR 0x89, CHR 0xE8, CHR 0xB4, CHR 0xA7]"

definition suffix_hours_limited :: string where
  \<comment> \<open>line 245, U+5C0F U+65F6 U+5185 ( U+5E93 U+5B58 U+6709 U+9650 ),
      "within ... hours (limited stock)"\<close>
  "suffix_hours_limited =
     [CHR 0xE5, CHR 0xB0, CHR 0x8F, CHR 0xE6, CHR 0x97, CHR 0xB6, CHR 0xE5, CHR 0x86, CHR 0x85,
      CHR 0x28, CHR 0xE5, CHR 0xBA, CHR 0x93, CHR 0xE5, CHR 0xAD, CHR 0x98, CHR 0xE6, CHR 0x9C,
      CHR 0x89, CHR 0xE9, CHR 0x99, CHR 0x90, CHR 0x29]"

definition suffix_hours_usable :: string where
  \<comment> \<open>line 245, U+5C0F U+65F6 U+5185 ( U+53EF U+7528 ), "within ... hours (available)"\<close>
  "suffix_hours_usable =
     [CHR 0xE5, CHR 0xB0, CHR 0x8F, CHR 0xE6, CHR 0x97, CHR 0xB6, CHR 0xE5, CHR 0x86, CHR 0x85,
      CHR 0x28, CHR 0xE5, CHR 0x8F, CHR 0xAF, CHR 0xE7, CHR 0x94, CHR 0xA8, CHR 0x29]"

definition suffix_hours_within :: string where
  \<comment> \<open>lines 248 and 254, U+5C0F U+65F6 U+5185 U+53EF U+7528, "available within ... hours"\<close>
  "suffix_hours_within =
     [CHR 0xE5, CHR 0xB0, CHR 0x8F, CHR 0xE6, CHR 0x97, CHR 0xB6, CHR 0xE5, CHR 0x86, CHR 0x85,
      CHR 0xE5, CHR 0x8F, CHR 0xAF, CHR 0xE7, CHR 0x94, CHR 0xA8]"

definition label_ample_stock :: string where
  \<comment> \<open>line 260, U+5E93 U+5B58 U+5145 U+8DB3, "ample stock"\<close>
  "label_ample_stock =
     [CHR 0xE5, CHR 0xBA, CHR 0x93, CHR 0xE5, CHR 0xAD, CHR 0x98, CHR 0xE5, CHR 0x85, CHR 0x85,
      CHR 0xE8, CHR 0xB6, CHR 0xB3]"

definition label_limited_stock :: string where
  \<comment> \<open>line 262, U+5E93 U+5B58 U+6709 U+9650, "limited stock"\<close>
  "label_limited_stock =
     [CHR 0xE5, CHR 0xBA, CHR 0x93, CHR 0xE5, CHR 0xAD, CHR 0x98, CHR 0xE6, CHR 0x9C, CHR 0x89,
      CHR 0xE9, CHR 0x99, CHR 0x90]"

definition label_no_vrack :: string where
  \<comment> \<open>lines 162 and 166, U+65E0 followed by "vRack", "no vRack"\<close>
  "label_no_vrack = [CHR 0xE6, CHR 0x97, CHR 0xA0, CHR 0x76, CHR 0x52, CHR 0x61, CHR 0x63, CHR 0x6B]"

text \<open>
  Lines 197 to 277 on a raw status that is a string or is absent (\<open>None\<close>): the
  classification of the status of one datacenter. The test
  \<open>!availability\<close> is also true of the empty string. The three keyword tests of lines
  216 to 218 are \<open>includes\<close> on the string as it is; the tests for \<open>high\<close> and \<open>low\<close>
  are on its lower-cased copy. \<open>hours\<close>, when the expression matched, is a non-empty
  string and so is truthy.
\<close>

definition resolve :: "string option \<Rightarrow> availability_info" where
  "resolve raw =
     (case raw of
        None \<Rightarrow> \<lparr>availability = Unknown, icon = ClockMuted, label = label_unknown\<rparr>
      | Some a \<Rightarrow>
          if a = [] \<or> a = ''unknown'' then
            \<lparr>availability = Unknown, icon = ClockMuted, label = label_unknown\<rparr>
          else if a = ''unavailable'' then
            \<lparr>availability = Unavailable, icon = XCircleRed, label = label_out_of_stock\<rparr>
          else if str_includes a ''unavailable'' \<or> str_includes a ''out'' \<or> str_includes a ''none'' then
            \<lparr>availability = Unavailable, icon = XCircleRed, label = label_out_of_stock\<rparr>
          else
            let hasHighStock = str_includes (toLowerCase a) ''high'';
                hasLowStock = str_includes (toLowerCase a) ''low''
            in (case hourMatch a of
                  Some hours \<Rightarrow>
                    if parseInt hours \<le> 1 then
                      \<lparr>availability = Available, icon = CheckCircleGreen,
                       label = (if hasLowStock then hours @ suffix_hours_limited
                                else hours @ suffix_hours_usable)\<rparr>
                    else if parseInt hours \<le> 24 then
                      \<lparr>availability = Soon, icon = AlertCircleYellow,
                       label = hours @ suffix_hours_within\<rparr>
                    else
                      \<lparr>availability = Soon, icon = AlertCircleYellow,
                       label = hours @ suffix_hours_within\<rparr>
                | None \<Rightarrow>
                    if hasHighStock then
                      \<lparr>availability = Available, icon = CheckCircleGreen,
                       label = label_ample_stock\<rparr>
                    else if hasLowStock then
                      \<lparr>availability = Soon, icon = AlertCircleYellow,
                       label = label_limited_stock\<rparr>
                    else if a = ''available'' then
                      \<lparr>availability = Available, icon = CheckCircleGreen,
                       label = label_in_stock\<rparr>
                    else
                      \<lparr>availability = Available, icon = CheckCircleGreen, label = a\<rparr>))"









section \<open>The state of one server card (ServerCard.tsx)\<close>

text \<open>
  \<open>FormattedServer\<close>, as far as the card reads it. The option arrays are optional in
  the source; an absent array and an empty one fail the same guards, so both are the
  empty list here.
\<close>

record server_option =
  option_code :: string
  option_formatted :: string

record server =
  server_planCode :: string
  server_name :: string
  server_memory :: string
  server_storage :: string
  server_bandwidth :: string
  server_vrack :: string
  server_memoryOptions :: "server_option list"
  server_storageOptions :: "server_option list"
  server_bandwidthOptions :: "server_option list"
  server_vrackOptions :: "server_option list"

text \<open>
  The request sent to \<open>apiService.createTask\<close> (\<open>ServerConfig\<close>). An entry of \<open>options\<close>
  is the pair of the \<open>label\<close> and the \<open>value\<close> that \<open>getSelectedOptions\<close> builds.
\<close>

type_synonym selected_option = "string \<times> string"

record ServerConfig =
  name :: string
  planCode :: string
  options :: "selected_option list"
  duration :: string
  datacenter :: string
  quantity :: int
  os :: string
  maxRetries :: int
  taskInterval :: int

text \<open>
  The notifications of the card, one constructor for each call of \<open>toast\<close>: lines 389,
  396, 416, 446, 456 (with \<open>server.name\<close>), 490 (with \<open>server.name\<close> and the number of
  datacenters) and 503.
\<close>

datatype toast =
    ConfigConfirmedToast
  | CheckFailedToast
  | DefaultConfirmedToast
  | NoDatacenterToast
  | AddingToast string
  | AddedToast string nat
  | AddFailedToast

text \<open>The toasts raised with \<open>variant: "destructive"\<close>.\<close>

fun destructive :: "toast \<Rightarrow> bool" where
  "destructive CheckFailedToast = True"
| "destructive NoDatacenterToast = True"
| "destructive AddFailedToast = True"
| "destructive _ = False"

text \<open>
  The \<open>useState\<close> cells of lines 55 to 78 that the handlers below read or write,
  followed by what the handlers do to their collaborators: the browser's
  \<open>localStorage\<close>, the toasts shown, the requests passed to \<open>apiService.createTask\<close> in
  the order of the calls, whether the task list query was invalidated, and the routes
  navigated to.
\<close>

record card_state =
  isChecking :: bool
  isAddingToQueue :: bool
  selectedMemory :: "string option"
  selectedStorage :: "string option"
  selectedBandwidth :: "string option"
  selectedVrack :: "string option"
  displayedMemory :: string
  displayedStorage :: string
  displayedBandwidth :: string
  displayedVrack :: string
  configChanged :: bool
  configConfirmed :: bool
  selectedDatacenters :: "string list"
  localStorage :: "string \<rightharpoonup> string"
  toasts :: "toast list"
  taskRequests :: "ServerConfig list"
  tasksInvalidated :: bool
  navigations :: "string list"

text \<open>The initial values of the \<open>useState\<close> cells, over a given browser storage.\<close>

definition initialState :: "server \<Rightarrow> (string \<rightharpoonup> string) \<Rightarrow> card_state" where
  "initialState srv storage =
     \<lparr>isChecking = False, isAddingToQueue = False,
      selectedMemory = None, selectedStorage = None,
      selectedBandwidth = None, selectedVrack = None,
      displayedMemory = server_memory srv, displayedStorage = server_storage srv,
      displayedBandwidth = server_bandwidth srv, displayedVrack = server_vrack srv,
      configChanged = False, configConfirmed = False,
      selectedDatacenters = [],
      localStorage = storage, toasts = [], taskRequests = [],
      tasksInvalidated = False, navigations = []\<rparr>"

text \<open>
  An outcome of an awaited call to a collaborator: the promise resolves or rejects.
\<close>

datatype outcome = Resolved | Rejected

subsection \<open>The confirmation state and the submission gate\<close>

text \<open>
  The card keeps two flags. The specification column of the card (lines 556 to 560)
  reads them as three states: confirmed when \<open>configConfirmed\<close> is set, otherwise
  modified when \<open>configChanged\<close> is set, otherwise default.
\<close>

datatype confirmation_state = Default | Modified | Confirmed

definition confirmationState :: "card_state \<Rightarrow> confirmation_state" where
  "confirmationState s =
     (if configConfirmed s then Confirmed else if configChanged s then Modified else Default)"

text \<open>Line 1001: the \<open>disabled\<close> attribute of the button that calls \<open>handleAddToQueue\<close>.\<close>

definition addToQueueDisabled :: "card_state \<Rightarrow> bool" where
  "addToQueueDisabled s =
     (\<not> configConfirmed s \<or> length (selectedDatacenters s) = 0 \<or> isAddingToQueue s)"

subsection \<open>Option selection\<close>

text \<open>
  Lines 290 to 323. An entry is pushed for a family when its selected code is truthy:
  not \<open>null\<close> and not the empty string.
\<close>

definition pushOption :: "string \<Rightarrow> string option \<Rightarrow> selected_option list" where
  "pushOption family selected =
     (case selected of
        None \<Rightarrow> []
      | Some code \<Rightarrow> if code = [] then [] else [(family, code)])"

definition getSelectedOptions :: "card_state \<Rightarrow> selected_option list" where
  "getSelectedOptions s =
     pushOption ''memory'' (selectedMemory s)
     @ pushOption ''storage'' (selectedStorage s)
     @ pushOption ''bandwidth'' (selectedBandwidth s)
     @ pushOption ''vrack'' (selectedVrack s)"

text \<open>
  Lines 326 to 351: \<open>isRealChange\<close>, the comparison of the code with the one selected for
  the family; a family the \<open>switch\<close> has no case for leaves it \<open>false\<close>.
\<close>

definition isRealChange :: "string \<Rightarrow> string \<Rightarrow> card_state \<Rightarrow> bool" where
  "isRealChange family optionCode s =
     (if family = ''memory'' then selectedMemory s \<noteq> Some optionCode
      else if family = ''storage'' then selectedStorage s \<noteq> Some optionCode
      else if family = ''bandwidth'' then selectedBandwidth s \<noteq> Some optionCode
      else if family = ''vrack'' then selectedVrack s \<noteq> Some optionCode
      else False)"

text \<open>
  Lines 326 to 363. The selection and the displayed text of the family are written in
  every call; \<open>configChanged\<close> is set on a real change, and \<open>configConfirmed\<close> is not
  written (lines 355 and 356 say so).
\<close>

definition handleSelectOption :: "string \<Rightarrow> string \<Rightarrow> string \<Rightarrow> card_state \<Rightarrow> card_state" where
  "handleSelectOption family optionCode displayText s =
     (let changed = isRealChange family optionCode s;
          s1 = (if family = ''memory'' then
                  s\<lparr>selectedMemory := Some optionCode, displayedMemory := displayText\<rparr>
                else if family = ''storage'' then
                  s\<lparr>selectedStorage := Some optionCode, displayedStorage := displayText\<rparr>
                else if family = ''bandwidth'' then
                  s\<lparr>selectedBandwidth := Some optionCode, displayedBandwidth := displayText\<rparr>
                else if family = ''vrack'' then
                  s\<lparr>selectedVrack := Some optionCode, displayedVrack := displayText\<rparr>
                else s)
      in if changed then s1\<lparr>configChanged := True\<rparr> else s1)"

subsection \<open>Confirmation by an availability check\<close>

text \<open>
  The snapshot written at lines 381 to 387 and read back at lines 92 to 113: for each
  family the selected code (possibly \<open>null\<close>) and the displayed text.
  \<open>JSON.stringify\<close> and \<open>JSON.parse\<close> belong to the platform and are parameters of the
  handlers that call them.
\<close>

record saved_entry =
  saved_code :: "string option"
  saved_display :: string

record saved_config =
  saved_memory :: "saved_entry option"
  saved_storage :: "saved_entry option"
  saved_bandwidth :: "saved_entry option"
  saved_vrack :: "saved_entry option"

definition confirmedConfigKey :: "server \<Rightarrow> string" where
  "confirmedConfigKey srv = ''confirmedConfig_'' @ server_planCode srv"

definition confirmedConfig :: "card_state \<Rightarrow> saved_config" where
  "confirmedConfig s =
     \<lparr>saved_memory = Some \<lparr>saved_code = selectedMemory s, saved_display = displayedMemory s\<rparr>,
      saved_storage = Some \<lparr>saved_code = selectedStorage s, saved_display = displayedStorage s\<rparr>,
      saved_bandwidth =
        Some \<lparr>saved_code = selectedBandwidth s, saved_display = displayedBandwidth s\<rparr>,
      saved_vrack = Some \<lparr>saved_code = selectedVrack s, saved_display = displayedVrack s\<rparr>\<rparr>"

text \<open>
  Lines 366 to 404, from the click to the end of the \<open>finally\<close> block, for either outcome
  of \<open>await onCheckAvailability(server.planCode, options)\<close>. A rejection skips lines 376
  to 393 and runs the \<open>catch\<close> block.
\<close>

definition handleCheckConfigAvailability ::
  "(saved_config \<Rightarrow> string) \<Rightarrow> server \<Rightarrow> outcome \<Rightarrow> card_state \<Rightarrow> card_state" where
  "handleCheckConfigAvailability stringify srv checked s =
     (case checked of
        Resolved \<Rightarrow>
          s\<lparr>configConfirmed := True, configChanged := False,
            localStorage := (localStorage s)(confirmedConfigKey srv \<mapsto> stringify (confirmedConfig s)),
            toasts := toasts s @ [ConfigConfirmedToast],
            isChecking := False\<rparr>
      | Rejected \<Rightarrow>
          s\<lparr>toasts := toasts s @ [CheckFailedToast], isChecking := False\<rparr>)"

text \<open>Lines 407 to 426: the check of the default configuration; its \<open>catch\<close> only logs.\<close>

definition handleCheckDefaultAvailability :: "outcome \<Rightarrow> card_state \<Rightarrow> card_state" where
  "handleCheckDefaultAvailability checked s =
     (case checked of
        Resolved \<Rightarrow>
          s\<lparr>configConfirmed := True, toasts := toasts s @ [DefaultConfirmedToast],
            isChecking := False\<rparr>
      | Rejected \<Rightarrow> s\<lparr>isChecking := False\<rparr>)"

subsection \<open>Restoring the confirmed configuration at load\<close>

text \<open>Lines 126 to 167: the selections that match the plan's own specification.\<close>

definition defaultSelections :: "server \<Rightarrow> card_state \<Rightarrow> card_state" where
  "defaultSelections srv s =
     (let s1 = (case find (\<lambda>opt. option_formatted opt = server_memory srv)
                       (server_memoryOptions srv) of
                  Some opt \<Rightarrow> s\<lparr>selectedMemory := Some (option_code opt)\<rparr>
                | None \<Rightarrow> s);
          s2 = (case find (\<lambda>opt. option_formatted opt = server_storage srv)
                       (server_storageOptions srv) of
                  Some opt \<Rightarrow> s1\<lparr>selectedStorage := Some (option_code opt)\<rparr>
                | None \<Rightarrow> s1);
          s3 = (case find (\<lambda>opt. option_formatted opt = server_bandwidth srv)
                       (server_bandwidthOptions srv) of
                  Some opt \<Rightarrow> s2\<lparr>selectedBandwidth := Some (option_code opt)\<rparr>
                | None \<Rightarrow> s2)
      in (case find (\<lambda>opt. option_formatted opt = server_vrack srv)
                 (server_vrackOptions srv) of
            Some opt \<Rightarrow> s3\<lparr>selectedVrack := Some (option_code opt)\<rparr>
          | None \<Rightarrow> s3\<lparr>displayedVrack := label_no_vrack\<rparr>))"

text \<open>Lines 94 to 117: the saved selections are written back and the flags set.\<close>

definition restoreConfig :: "saved_config \<Rightarrow> card_state \<Rightarrow> card_state" where
  "restoreConfig savedConfig s =
     (let s1 = (case saved_memory savedConfig of
                  Some e \<Rightarrow> s\<lparr>selectedMemory := saved_code e, displayedMemory := saved_display e\<rparr>
                | None \<Rightarrow> s);
          s2 = (case saved_storage savedConfig of
                  Some e \<Rightarrow> s1\<lparr>selectedStorage := saved_code e, displayedStorage := saved_display e\<rparr>
                | None \<Rightarrow> s1);
          s3 = (case saved_bandwidth savedConfig of
                  Some e \<Rightarrow>
                    s2\<lparr>selectedBandwidth := saved_code e, displayedBandwidth := saved_display e\<rparr>
                | None \<Rightarrow> s2);
          s4 = (case saved_vrack savedConfig of
                  Some e \<Rightarrow> s3\<lparr>selectedVrack := saved_code e, displayedVrack := saved_display e\<rparr>
                | None \<Rightarrow> s3)
      in s4\<lparr>configConfirmed := True, configChanged := False\<rparr>)"

text \<open>
  Lines 86 to 168, the effect run for a server. \<open>parse\<close> is \<open>JSON.parse\<close> followed by the
  reading of the four entries: \<open>None\<close> when an exception is thrown in the \<open>try\<close> block,
  which can happen in \<open>JSON.parse\<close> itself and at the first property read of a parsed
  \<open>null\<close>, in both cases before any state is written. A stored empty string is falsy
  and is treated as no snapshot.
\<close>

definition initEffect ::
  "(string \<Rightarrow> saved_config option) \<Rightarrow> server \<Rightarrow> card_state \<Rightarrow> card_state" where
  "initEffect parse srv s =
     (case localStorage s (confirmedConfigKey srv) of
        None \<Rightarrow> defaultSelections srv s
      | Some savedConfigStr \<Rightarrow>
          if savedConfigStr = [] then defaultSelections srv s
          else (case parse savedConfigStr of
                  Some savedConfig \<Rightarrow> restoreConfig savedConfig s
                | None \<Rightarrow> defaultSelections srv s))"

subsection \<open>Datacenter selection and submission\<close>

text \<open>Lines 429 to 437.\<close>

definition toggleDatacenter :: "string \<Rightarrow> card_state \<Rightarrow> card_state" where
  "toggleDatacenter datacenterId s =
     s\<lparr>selectedDatacenters :=
         (if datacenterId \<in> set (selectedDatacenters s)
          then filter (\<lambda>i. i \<noteq> datacenterId) (selectedDatacenters s)
          else selectedDatacenters s @ [datacenterId])\<rparr>"

text \<open>Line 864: the button that clears the selection.\<close>

definition clearDatacenters :: "card_state \<Rightarrow> card_state" where
  "clearDatacenters s = s\<lparr>selectedDatacenters := []\<rparr>"

text \<open>Lines 468 to 478: the request built for one datacenter.\<close>

definition serverConfig :: "server \<Rightarrow> selected_option list \<Rightarrow> string \<Rightarrow> ServerConfig" where
  "serverConfig srv frontendOptions datacenterId =
     \<lparr>name = server_name srv @ '' ('' @ datacenterId @ '')'',
      planCode = server_planCode srv,
      options = frontendOptions,
      duration = ''P1M'',
      datacenter = datacenterId,
      quantity = 1,
      os = ''none_64.en'',
      maxRetries = - 1,
      taskInterval = 60\<rparr>"

text \<open>
  Lines 466 to 484: the loop over the selected datacenters. Each request is awaited
  before the next is built; a rejected one throws out of the loop. The result is the
  list of the requests passed to \<open>createTask\<close>, the rejected one included, and how the
  loop ended.
\<close>

fun createTasks ::
  "(ServerConfig \<Rightarrow> outcome) \<Rightarrow> server \<Rightarrow> selected_option list \<Rightarrow> string list
     \<Rightarrow> ServerConfig list \<times> outcome" where
  "createTasks createTask srv frontendOptions [] = ([], Resolved)"
| "createTasks createTask srv frontendOptions (datacenterId # rest) =
     (let cfg = serverConfig srv frontendOptions datacenterId in
      case createTask cfg of
        Rejected \<Rightarrow> ([cfg], Rejected)
      | Resolved \<Rightarrow>
          (case createTasks createTask srv frontendOptions rest of
             (sent, ended) \<Rightarrow> (cfg # sent, ended)))"

text \<open>
  Lines 440 to 511, from the click to the end of the \<open>finally\<close> block. \<open>createTask\<close>
  gives the outcome of \<open>apiService.createTask\<close> on a request.
\<close>

definition handleAddToQueue ::
  "(ServerConfig \<Rightarrow> outcome) \<Rightarrow> server \<Rightarrow> card_state \<Rightarrow> card_state" where
  "handleAddToQueue createTask srv s =
     (if length (selectedDatacenters s) = 0 then
        s\<lparr>toasts := toasts s @ [NoDatacenterToast], isAddingToQueue := False\<rparr>
      else
        (case createTasks createTask srv (getSelectedOptions s) (selectedDatacenters s) of
           (sent, Resolved) \<Rightarrow>
             s\<lparr>toasts := toasts s @ [AddingToast (server_name srv),
                                      AddedToast (server_name srv) (length (selectedDatacenters s))],
               taskRequests := taskRequests s @ sent,
               tasksInvalidated := True,
               selectedDatacenters := [],
               navigations := navigations s @ [''/queue''],
               isAddingToQueue := False\<rparr>
         | (sent, Rejected) \<Rightarrow>
             s\<lparr>toasts := toasts s @ [AddingToast (server_name srv), AddFailedToast],
               taskRequests := taskRequests s @ sent,
               isAddingToQueue := False\<rparr>))"

section \<open>The task form schema (AddTaskForm, taskFormSchema)\<close>

text \<open>
  A JavaScript number: a finite value, which is a rational, one of the two infinities,
  or NaN.
\<close>

datatype js_number = Finite rat | PosInfinity | NegInfinity | NaN

text \<open>
  The checks of the validation library as the schema chains them. \<open>z.number()\<close> refuses
  NaN; \<open>.int()\<close> asks \<open>Number.isInteger\<close>; \<open>.min(m)\<close> refuses a value below \<open>m\<close> and
  \<open>.max(m)\<close> one above it. A value passes when every check of the chain passes.
\<close>

definition z_number :: "js_number \<Rightarrow> bool" where
  "z_number x = (x \<noteq> NaN)"

fun z_int :: "js_number \<Rightarrow> bool" where
  "z_int (Finite r) = (of_int \<lfloor>r\<rfloor> = r)"
| "z_int _ = False"

fun z_min :: "int \<Rightarrow> js_number \<Rightarrow> bool" where
  "z_min m (Finite r) = (\<not> r < of_int m)"
| "z_min m PosInfinity = True"
| "z_min m NegInfinity = False"
| "z_min m NaN = True"

fun z_max :: "int \<Rightarrow> js_number \<Rightarrow> bool" where
  "z_max m (Finite r) = (\<not> r > of_int m)"
| "z_max m PosInfinity = False"
| "z_max m NegInfinity = True"
| "z_max m NaN = True"

text \<open>Lines 32 to 42 of the form, field by field; \<open>options\<close> accepts any array.\<close>

record TaskFormValues =
  form_name :: string
  form_planCode :: string
  form_datacenter :: string
  form_quantity :: js_number
  form_os :: string
  form_duration :: string
  form_maxRetries :: js_number
  form_taskInterval :: js_number

definition quantity_schema :: "js_number \<Rightarrow> bool" where
  "quantity_schema x = (z_number x \<and> z_int x \<and> z_min 1 x \<and> z_max 5 x)"

definition maxRetries_schema :: "js_number \<Rightarrow> bool" where
  "maxRetries_schema x = (z_number x \<and> z_int x \<and> z_min (- 1) x \<and> z_max 100 x)"

definition taskInterval_schema :: "js_number \<Rightarrow> bool" where
  "taskInterval_schema x = (z_number x \<and> z_int x \<and> z_min 5 x \<and> z_max 600 x)"

definition taskFormSchema :: "TaskFormValues \<Rightarrow> bool" where
  "taskFormSchema v =
     (length (form_name v) \<ge> 1
      \<and> length (form_planCode v) \<ge> 1
      \<and> length (form_datacenter v) \<ge> 1
      \<and> quantity_schema (form_quantity v)
      \<and> maxRetries_schema (form_maxRetries v)
      \<and> taskInterval_schema (form_taskInterval v))"

section \<open>A sample plan\<close>

text \<open>
  A plan with two memory options, and the card of this plan after the load without a
  saved snapshot, a successful check of the selected configuration and the selection of
  the datacenter \<open>gra\<close>. They serve as concrete inputs below.
\<close>

definition sample_server :: server where
  "sample_server =
     \<lparr>server_planCode = ''24ska01'', server_name = ''KS-A'',
      server_memory = ''64 GB'', server_storage = ''2x480 GB'',
      server_bandwidth = ''1 Gbps'', server_vrack = ''none'',
      server_memoryOptions =
        [\<lparr>option_code = ''ram-64g'', option_formatted = ''64 GB''\<rparr>,
         \<lparr>option_code = ''ram-128g'', option_formatted = ''128 GB''\<rparr>],
      server_storageOptions = [], server_bandwidthOptions = [], server_vrackOptions = []\<rparr>"

definition sample_loaded :: card_state where
  "sample_loaded = initEffect (\<lambda>t. None) sample_server (initialState sample_server Map.empty)"

definition sample_confirmed :: card_state where
  "sample_confirmed =
     toggleDatacenter ''gra''
       (handleCheckConfigAvailability (\<lambda>c. ''saved'') sample_server Resolved sample_loaded)"

text \<open>
  The same card with the datacenter \<open>rbx\<close> selected as well, a task service that
  rejects the requests for \<open>gra\<close>, and a reader of saved snapshots that knows the text
  \<open>{}\<close>, an object without entries, and throws on every other text.
\<close>

definition sample_two :: card_state where
  "sample_two = toggleDatacenter ''rbx'' sample_confirmed"

definition reject_gra :: "ServerConfig \<Rightarrow> outcome" where
  "reject_gra cfg = (if datacenter cfg = ''gra'' then Rejected else Resolved)"

definition sample_parse :: "string \<Rightarrow> saved_config option" where
  "sample_parse t =
     (if t = ''{}'' then
        Some \<lparr>saved_memory = None, saved_storage = None, saved_bandwidth = None,
              saved_vrack = None\<rparr>
      else None)"



definition sample_full_server :: server where
  "sample_full_server =
     \<lparr>server_planCode = ''24sk50'', server_name = ''KS-5'',
      server_memory = ''32 GB'', server_storage = ''2x960 GB'',
      server_bandwidth = ''500 Mbps'', server_vrack = ''100 Mbps'',
      server_memoryOptions =
        [\<lparr>option_code = ''ram-32g'', option_formatted = ''32 GB''\<rparr>,
         \<lparr>option_code = ''ram-64g'', option_formatted = ''64 GB''\<rparr>],
      server_storageOptions =
        [\<lparr>option_code = ''softraid-2x450nvme'', option_formatted = ''2x450 GB''\<rparr>,
         \<lparr>option_code = ''softraid-2x960nvme'', option_formatted = ''2x960 GB''\<rparr>],
      server_bandwidthOptions =
        [\<lparr>option_code = ''bandwidth-500'', option_formatted = ''500 Mbps''\<rparr>],
      server_vrackOptions =
        [\<lparr>option_code = ''vrack-bandwidth-100'', option_formatted = ''100 Mbps''\<rparr>]\<rparr>"

section \<open>Properties of the string functions\<close>

lemma str_includes_iff: "str_includes s n \<longleftrightarrow> (\<exists>p q. s = p @ n @ q)"
proof (induction s)
  case Nil
  show ?case by auto
next
  case (Cons c cs)
  have "(\<exists>p q. c # cs = p @ n @ q) \<longleftrightarrow> prefix n (c # cs) \<or> (\<exists>p q. cs = p @ n @ q)"
  proof
    assume "\<exists>p q. c # cs = p @ n @ q"
    then obtain p q where pq: "c # cs = p @ n @ q" by blast
    show "prefix n (c # cs) \<or> (\<exists>p q. cs = p @ n @ q)"
    proof (cases p)
      case Nil
      with pq show ?thesis by (simp add: prefix_def)
    next
      case (Cons x xs)
      with pq have "cs = xs @ n @ q" by simp
      then show ?thesis by blast
    qed
  next
    assume "prefix n (c # cs) \<or> (\<exists>p q. cs = p @ n @ q)"
    then show "\<exists>p q. c # cs = p @ n @ q"
    proof
      assume "prefix n (c # cs)"
      then obtain q where "c # cs = n @ q" by (auto simp: prefix_def)
      then have "c # cs = [] @ n @ q" by simp
      then show ?thesis by blast
    next
      assume "\<exists>p q. cs = p @ n @ q"
      then obtain p q where "cs = p @ n @ q" by blast
      then have "c # cs = (c # p) @ n @ q" by simp
      then show ?thesis by blast
    qed
  qed
  with Cons show ?case by simp
qed

lemma hourMark_not_digit: "isHourMark x \<Longrightarrow> \<not> isDigit x"
  by (auto simp: isHourMark_def isDigit_def)

text \<open>
  What the expression captures is a non-empty run of digits of the string that an \<open>h\<close>
  or \<open>H\<close> follows.
\<close>

lemma hourMatch_sound:
  "hourMatch s = Some ds \<Longrightarrow>
     \<exists>p x q. s = p @ ds @ x # q \<and> ds \<noteq> [] \<and> (\<forall>c \<in> set ds. isDigit c) \<and> isHourMark x"
proof (induction s)
  case Nil
  then show ?case by simp
next
  case (Cons c cs)
  show ?case
  proof (cases "isDigit c \<and> (\<exists>x r. dropWhile isDigit (c # cs) = x # r \<and> isHourMark x)")
    case True
    then obtain x r where d: "isDigit c" "dropWhile isDigit (c # cs) = x # r" "isHourMark x"
      by blast
    with Cons.prems have ds: "ds = takeWhile isDigit (c # cs)"
      by (simp split: list.splits if_splits)
    have "c # cs = takeWhile isDigit (c # cs) @ dropWhile isDigit (c # cs)"
      by (simp only: takeWhile_dropWhile_id)
    with d ds have "c # cs = [] @ ds @ x # r" by simp
    moreover have "ds \<noteq> []" using d ds by simp
    moreover have "\<forall>c \<in> set ds. isDigit c" using ds by (auto dest: set_takeWhileD)
    ultimately show ?thesis using d(3) by blast
  next
    case False
    with Cons.prems have "hourMatch cs = Some ds"
      by (auto split: list.splits if_splits)
    from Cons.IH[OF this] obtain p x q where
      "cs = p @ ds @ x # q" "ds \<noteq> []" "\<forall>c \<in> set ds. isDigit c" "isHourMark x" by blast
    then have "c # cs = (c # p) @ ds @ x # q" by simp
    with \<open>ds \<noteq> []\<close> \<open>\<forall>c \<in> set ds. isDigit c\<close> \<open>isHourMark x\<close> show ?thesis by blast
  qed
qed

text \<open>A digit followed by \<open>h\<close> or \<open>H\<close> anywhere in the string makes the expression match.\<close>

lemma hourMatch_complete:
  "isDigit d \<Longrightarrow> isHourMark x \<Longrightarrow> hourMatch (p @ d # x # q) \<noteq> None"
proof (induction p)
  case Nil
  then show ?case by (simp add: hourMark_not_digit)
next
  case (Cons c p)
  then show ?case by (auto split: list.splits)
qed

text \<open>On a string that starts with digits followed by \<open>h\<close> or \<open>H\<close>, these digits are captured.\<close>

lemma hourMatch_digits:
  "ds \<noteq> [] \<Longrightarrow> \<forall>c \<in> set ds. isDigit c \<Longrightarrow> isHourMark x \<Longrightarrow> hourMatch (ds @ x # q) = Some ds"
proof -
  assume a: "ds \<noteq> []" "\<forall>c \<in> set ds. isDigit c" "isHourMark x"
  then obtain c cs where ds: "ds = c # cs" by (cases ds) auto
  have nd: "\<not> isDigit x" using a(3) by (rule hourMark_not_digit)
  have t: "takeWhile isDigit (ds @ x # q) = ds" using a(2) nd by simp
  have dr: "dropWhile isDigit (ds @ x # q) = x # q" using a(2) nd by simp
  have "isDigit c" using a(2) ds by simp
  then show ?thesis using t dr a(3) unfolding ds by simp
qed

section \<open>Properties of the availability classification\<close>

text \<open>
  A status that contains one of the three keywords as the source writes them, in lower
  case, is classified as unavailable.
\<close>

lemma resolve_keyword_present:
  assumes "str_includes a ''unavailable'' \<or> str_includes a ''out'' \<or> str_includes a ''none''"
    and "a \<noteq> []" and "a \<noteq> ''unknown''"
  shows "resolve (Some a) =
           \<lparr>availability = Unavailable, icon = XCircleRed, label = label_out_of_stock\<rparr>"
  using assms by (simp add: resolve_def)

lemma unknown_has_no_keyword:
  "\<not> str_includes ''unknown'' ''unavailable''" "\<not> str_includes ''unknown'' ''out''"
  "\<not> str_includes ''unknown'' ''none''"
  by code_simp+

lemma resolve_negative_keyword:
  assumes "k = ''unavailable'' \<or> k = ''out'' \<or> k = ''none''" and "a = p @ k @ q"
  shows "resolve (Some a) =
           \<lparr>availability = Unavailable, icon = XCircleRed, label = label_out_of_stock\<rparr>"
proof -
  have inc: "str_includes a k"
    unfolding str_includes_iff using assms(2) by blast
  have kne: "k \<noteq> []"
    using assms(1) by (elim disjE) simp_all
  then have ne: "a \<noteq> []"
    unfolding assms(2) by simp
  have nk: "\<not> str_includes ''unknown'' k"
    using assms(1) unknown_has_no_keyword by (elim disjE) (simp_all only: not_False_eq_True)
  have nu: "a \<noteq> ''unknown''"
  proof
    assume "a = ''unknown''"
    with inc have "str_includes ''unknown'' k" by (simp only:)
    with nk show False by (rule notE)
  qed
  have "str_includes a ''unavailable'' \<or> str_includes a ''out'' \<or> str_includes a ''none''"
    using assms(1)
  proof (elim disjE)
    assume "k = ''unavailable''"
    with inc show ?thesis by (simp only: simp_thms)
  next
    assume "k = ''out''"
    with inc show ?thesis by (simp only: simp_thms)
  next
    assume "k = ''none''"
    with inc show ?thesis by (simp only: simp_thms)
  qed
  then show ?thesis using ne nu by (rule resolve_keyword_present)
qed









text \<open>
  Claim C3 at the statuses \<open>OUT\<close>, \<open>None\<close> and \<open>UNAVAILABLE\<close>: the keyword tests of lines
  216 to 218 compare the letters as they are, none of the three statuses contains a
  keyword in lower case, and each is classified as available with itself as the label.
\<close>

theorem resolve_upper_case_keyword:
  "resolve (Some ''OUT'') =
     \<lparr>availability = Available, icon = CheckCircleGreen, label = ''OUT''\<rparr>
   \<and> resolve (Some ''None'') =
     \<lparr>availability = Available, icon = CheckCircleGreen, label = ''None''\<rparr>
   \<and> resolve (Some ''UNAVAILABLE'') =
     \<lparr>availability = Available, icon = CheckCircleGreen, label = ''UNAVAILABLE''\<rparr>"
  by code_simp








section \<open>Properties of the task form schema\<close>

lemma z_int_iff: "z_int x \<longleftrightarrow> (\<exists>n::int. x = Finite (of_int n))"
proof (cases x)
  case (Finite r)
  show ?thesis
  proof
    assume "z_int x"
    with Finite have "of_int \<lfloor>r\<rfloor> = r" by simp
    with Finite show "\<exists>n::int. x = Finite (of_int n)" by metis
  next
    assume "\<exists>n::int. x = Finite (of_int n)"
    then obtain n :: int where "x = Finite (of_int n)" by blast
    then show "z_int x" by simp
  qed
qed simp_all

lemma maxRetries_schema_iff:
  "maxRetries_schema x \<longleftrightarrow> (\<exists>n::int. x = Finite (of_int n) \<and> - 1 \<le> n \<and> n \<le> 100)"
proof
  assume v: "maxRetries_schema x"
  then obtain n :: int where n: "x = Finite (of_int n)"
    unfolding maxRetries_schema_def z_int_iff by blast
  from v have "- 1 \<le> n \<and> n \<le> 100"
    unfolding maxRetries_schema_def n by (simp add: not_less)
  with n show "\<exists>n::int. x = Finite (of_int n) \<and> - 1 \<le> n \<and> n \<le> 100" by blast
next
  assume "\<exists>n::int. x = Finite (of_int n) \<and> - 1 \<le> n \<and> n \<le> 100"
  then show "maxRetries_schema x"
    by (auto simp: maxRetries_schema_def z_number_def not_less)
qed

lemma taskInterval_schema_iff:
  "taskInterval_schema x \<longleftrightarrow> (\<exists>n::int. x = Finite (of_int n) \<and> 5 \<le> n \<and> n \<le> 600)"
proof
  assume v: "taskInterval_schema x"
  then obtain n :: int where n: "x = Finite (of_int n)"
    unfolding taskInterval_schema_def z_int_iff by blast
  from v have "5 \<le> n \<and> n \<le> 600"
    unfolding taskInterval_schema_def n by (simp add: not_less)
  with n show "\<exists>n::int. x = Finite (of_int n) \<and> 5 \<le> n \<and> n \<le> 600" by blast
next
  assume "\<exists>n::int. x = Finite (of_int n) \<and> 5 \<le> n \<and> n \<le> 600"
  then show "taskInterval_schema x"
    by (auto simp: taskInterval_schema_def z_number_def not_less)
qed

text \<open>
  Claim C6. The schema accepts a value for \<open>maxRetries\<close> exactly when it is an integer
  from -1 to 100, and a value for \<open>taskInterval\<close> exactly when it is an integer from 5
  to 600. It refuses -2 and 101 for the first and 4 and 601 for the second, and accepts
  -1 for the first and 5 for the second.
\<close>

theorem retry_policy_validation:
  "(maxRetries_schema x \<longleftrightarrow> (\<exists>n::int. x = Finite (of_int n) \<and> - 1 \<le> n \<and> n \<le> 100))
   \<and> (taskInterval_schema y \<longleftrightarrow> (\<exists>n::int. y = Finite (of_int n) \<and> 5 \<le> n \<and> n \<le> 600))
   \<and> \<not> maxRetries_schema (Finite (- 2))
   \<and> \<not> maxRetries_schema (Finite 101)
   \<and> \<not> taskInterval_schema (Finite 4)
   \<and> \<not> taskInterval_schema (Finite 601)
   \<and> maxRetries_schema (Finite (- 1))
   \<and> taskInterval_schema (Finite 5)"
proof -
  have "\<not> maxRetries_schema (Finite (- 2))" by (simp add: maxRetries_schema_def)
  moreover have "\<not> maxRetries_schema (Finite 101)" by (simp add: maxRetries_schema_def)
  moreover have "\<not> taskInterval_schema (Finite 4)" by (simp add: taskInterval_schema_def)
  moreover have "\<not> taskInterval_schema (Finite 601)" by (simp add: taskInterval_schema_def)
  moreover have "maxRetries_schema (Finite (- 1))"
    by (simp add: maxRetries_schema_def z_number_def)
  moreover have "taskInterval_schema (Finite 5)"
    by (simp add: taskInterval_schema_def z_number_def)
  ultimately show ?thesis
    using maxRetries_schema_iff [of x] taskInterval_schema_iff [of y] by blast
qed

section \<open>Properties of the card\<close>

subsection \<open>The sample card\<close>

lemma sample_loaded_eq:
  "sample_loaded = (initialState sample_server Map.empty)
     \<lparr>selectedMemory := Some ''ram-64g'', displayedVrack := label_no_vrack\<rparr>"
  by (simp add: sample_loaded_def initEffect_def defaultSelections_def sample_server_def
        initialState_def)

lemma sample_confirmed_fields:
  "configConfirmed sample_confirmed" "\<not> configChanged sample_confirmed"
  "selectedDatacenters sample_confirmed = [''gra'']" "\<not> isAddingToQueue sample_confirmed"
  "selectedMemory sample_confirmed = Some ''ram-64g''"
  "selectedStorage sample_confirmed = None" "selectedBandwidth sample_confirmed = None"
  "selectedVrack sample_confirmed = None" "taskRequests sample_confirmed = []"
  by (simp_all add: sample_confirmed_def sample_loaded_eq handleCheckConfigAvailability_def
        toggleDatacenter_def initialState_def)

lemma sample_two_fields:
  "selectedDatacenters sample_two = [''gra'', ''rbx'']"
  "getSelectedOptions sample_two = [(''memory'', ''ram-64g'')]"
  "taskRequests sample_two = []" "configConfirmed sample_two"
  by (simp_all add: sample_two_def toggleDatacenter_def sample_confirmed_fields
        getSelectedOptions_def pushOption_def)

subsection \<open>Option selection\<close>

lemma handleSelectOption_memory:
  "handleSelectOption ''memory'' c d s =
     (if selectedMemory s \<noteq> Some c
      then s\<lparr>selectedMemory := Some c, displayedMemory := d, configChanged := True\<rparr>
      else s\<lparr>selectedMemory := Some c, displayedMemory := d\<rparr>)"
  by (simp add: handleSelectOption_def isRealChange_def)

lemma handleSelectOption_storage:
  "handleSelectOption ''storage'' c d s =
     (if selectedStorage s \<noteq> Some c
      then s\<lparr>selectedStorage := Some c, displayedStorage := d, configChanged := True\<rparr>
      else s\<lparr>selectedStorage := Some c, displayedStorage := d\<rparr>)"
  by (simp add: handleSelectOption_def isRealChange_def)

lemma handleSelectOption_bandwidth:
  "handleSelectOption ''bandwidth'' c d s =
     (if selectedBandwidth s \<noteq> Some c
      then s\<lparr>selectedBandwidth := Some c, displayedBandwidth := d, configChanged := True\<rparr>
      else s\<lparr>selectedBandwidth := Some c, displayedBandwidth := d\<rparr>)"
  by (simp add: handleSelectOption_def isRealChange_def)

lemma handleSelectOption_vrack:
  "handleSelectOption ''vrack'' c d s =
     (if selectedVrack s \<noteq> Some c
      then s\<lparr>selectedVrack := Some c, displayedVrack := d, configChanged := True\<rparr>
      else s\<lparr>selectedVrack := Some c, displayedVrack := d\<rparr>)"
  by (simp add: handleSelectOption_def isRealChange_def)

lemma handleSelectOption_other:
  "family \<noteq> ''memory'' \<Longrightarrow> family \<noteq> ''storage'' \<Longrightarrow> family \<noteq> ''bandwidth''
     \<Longrightarrow> family \<noteq> ''vrack'' \<Longrightarrow> handleSelectOption family c d s = s"
  by (simp add: handleSelectOption_def isRealChange_def)

lemma isRealChange_other:
  "family \<noteq> ''memory'' \<Longrightarrow> family \<noteq> ''storage'' \<Longrightarrow> family \<noteq> ''bandwidth''
     \<Longrightarrow> family \<noteq> ''vrack'' \<Longrightarrow> \<not> isRealChange family c s"
  by (simp add: isRealChange_def)

lemma family_cases:
  obtains "family = ''memory''" | "family = ''storage''" | "family = ''bandwidth''"
  | "family = ''vrack''"
  | "family \<noteq> ''memory''" "family \<noteq> ''storage''" "family \<noteq> ''bandwidth''" "family \<noteq> ''vrack''"
  by blast

lemma reselect_not_real:
  "\<not> isRealChange family c (handleSelectOption family c d s)"
proof (cases family rule: family_cases)
  case 1 then show ?thesis by (simp add: handleSelectOption_memory isRealChange_def)
next
  case 2 then show ?thesis by (simp add: handleSelectOption_storage isRealChange_def)
next
  case 3 then show ?thesis by (simp add: handleSelectOption_bandwidth isRealChange_def)
next
  case 4 then show ?thesis by (simp add: handleSelectOption_vrack isRealChange_def)
next
  case 5 then show ?thesis by (simp add: isRealChange_other)
qed

text \<open>A call that is not a real change writes at most the displayed text of the family.\<close>

lemma select_not_real:
  assumes "\<not> isRealChange family c s"
  shows "getSelectedOptions (handleSelectOption family c d s) = getSelectedOptions s"
    and "configChanged (handleSelectOption family c d s) = configChanged s"
    and "configConfirmed (handleSelectOption family c d s) = configConfirmed s"
proof -
  let ?P = "getSelectedOptions (handleSelectOption family c d s) = getSelectedOptions s
    \<and> configChanged (handleSelectOption family c d s) = configChanged s
    \<and> configConfirmed (handleSelectOption family c d s) = configConfirmed s"
  have ?P
  proof (cases family rule: family_cases)
    case 1 with assms show ?thesis
      by (simp add: handleSelectOption_memory isRealChange_def getSelectedOptions_def)
  next
    case 2 with assms show ?thesis
      by (simp add: handleSelectOption_storage isRealChange_def getSelectedOptions_def)
  next
    case 3 with assms show ?thesis
      by (simp add: handleSelectOption_bandwidth isRealChange_def getSelectedOptions_def)
  next
    case 4 with assms show ?thesis
      by (simp add: handleSelectOption_vrack isRealChange_def getSelectedOptions_def)
  next
    case 5 then show ?thesis by (simp add: handleSelectOption_other)
  qed
  then show "getSelectedOptions (handleSelectOption family c d s) = getSelectedOptions s"
    and "configChanged (handleSelectOption family c d s) = configChanged s"
    and "configConfirmed (handleSelectOption family c d s) = configConfirmed s"
    by simp_all
qed

lemma reselect_same_text:
  "handleSelectOption family c d (handleSelectOption family c d s) = handleSelectOption family c d s"
proof (cases family rule: family_cases)
  case 1 then show ?thesis by (simp add: handleSelectOption_memory)
next
  case 2 then show ?thesis by (simp add: handleSelectOption_storage)
next
  case 3 then show ?thesis by (simp add: handleSelectOption_bandwidth)
next
  case 4 then show ?thesis by (simp add: handleSelectOption_vrack)
next
  case 5 then show ?thesis by (simp add: handleSelectOption_other)
qed

text \<open>
  Claim C9. After a selection of a code for a family, the same code is no real change
  for that family: a second call with it, whatever the displayed text passed, leaves
  the selected options, the two flags and the confirmation state as the first call
  left them, and with the same displayed text it leaves the whole state unchanged.
\<close>

theorem reselect_is_noop:
  "\<not> isRealChange family optionCode (handleSelectOption family optionCode displayText s)
   \<and> getSelectedOptions
        (handleSelectOption family optionCode displayText'
           (handleSelectOption family optionCode displayText s))
       = getSelectedOptions (handleSelectOption family optionCode displayText s)
   \<and> configChanged
        (handleSelectOption family optionCode displayText'
           (handleSelectOption family optionCode displayText s))
       = configChanged (handleSelectOption family optionCode displayText s)
   \<and> configConfirmed
        (handleSelectOption family optionCode displayText'
           (handleSelectOption family optionCode displayText s))
       = configConfirmed (handleSelectOption family optionCode displayText s)
   \<and> confirmationState
        (handleSelectOption family optionCode displayText'
           (handleSelectOption family optionCode displayText s))
       = confirmationState (handleSelectOption family optionCode displayText s)
   \<and> handleSelectOption family optionCode displayText
        (handleSelectOption family optionCode displayText s)
       = handleSelectOption family optionCode displayText s"
proof -
  let ?s1 = "handleSelectOption family optionCode displayText s"
  have n: "\<not> isRealChange family optionCode ?s1" by (rule reselect_not_real)
  note k = select_not_real [OF n, of displayText']
  have "confirmationState (handleSelectOption family optionCode displayText' ?s1)
          = confirmationState ?s1"
    by (simp only: confirmationState_def k)
  with n k reselect_same_text [of family optionCode displayText s] show ?thesis
    by (simp only: simp_thms)
qed

text \<open>
  Claim C2, as the code has it. A selection never writes \<open>configConfirmed\<close>; it sets
  \<open>configChanged\<close> when the change is real and leaves the selected datacenters alone. The
  button that submits is enabled exactly when the configuration is confirmed, a
  datacenter is selected and no submission is running. So a confirmed configuration
  stays confirmed through a selection, and a submission that was permitted before a
  selection, real change or not, is permitted after it.
\<close>

theorem select_keeps_confirmation:
  "configConfirmed (handleSelectOption family optionCode displayText s) = configConfirmed s
   \<and> configChanged (handleSelectOption family optionCode displayText s)
       = (configChanged s \<or> isRealChange family optionCode s)
   \<and> selectedDatacenters (handleSelectOption family optionCode displayText s)
       = selectedDatacenters s
   \<and> (\<not> addToQueueDisabled s \<longleftrightarrow>
        confirmationState s = Confirmed \<and> selectedDatacenters s \<noteq> [] \<and> \<not> isAddingToQueue s)
   \<and> (confirmationState s = Confirmed \<longrightarrow>
        confirmationState (handleSelectOption family optionCode displayText s) = Confirmed)
   \<and> (\<not> addToQueueDisabled s \<longrightarrow>
        \<not> addToQueueDisabled (handleSelectOption family optionCode displayText s))"
  by (simp add: handleSelectOption_def Let_def addToQueueDisabled_def confirmationState_def)

theorem select_keeps_confirmation_witness:
  "confirmationState sample_confirmed = Confirmed
   \<and> \<not> addToQueueDisabled sample_confirmed
   \<and> isRealChange ''memory'' ''ram-128g'' sample_confirmed
   \<and> confirmationState (handleSelectOption ''memory'' ''ram-128g'' ''128 GB'' sample_confirmed)
       = Confirmed
   \<and> \<not> addToQueueDisabled (handleSelectOption ''memory'' ''ram-128g'' ''128 GB'' sample_confirmed)"
proof -
  have c: "confirmationState sample_confirmed = Confirmed"
    by (simp add: confirmationState_def sample_confirmed_fields)
  have e: "\<not> addToQueueDisabled sample_confirmed"
    by (simp add: addToQueueDisabled_def sample_confirmed_fields)
  have r: "isRealChange ''memory'' ''ram-128g'' sample_confirmed"
    by (simp add: isRealChange_def sample_confirmed_fields)
  from select_keeps_confirmation [of "''memory''" "''ram-128g''" "''128 GB''" sample_confirmed]
    c e r show ?thesis by blast
qed

text \<open>
  The statement of C2 fails on the sample card: it is confirmed with one datacenter
  selected; choosing the other memory option is a real change, after which the state is
  still confirmed, not modified, and the button that submits is still enabled, without
  a new confirmation.
\<close>

theorem select_after_confirm_counterexample:
  "confirmationState sample_confirmed = Confirmed
   \<and> isRealChange ''memory'' ''ram-128g'' sample_confirmed
   \<and> confirmationState (handleSelectOption ''memory'' ''ram-128g'' ''128 GB'' sample_confirmed)
       \<noteq> Modified
   \<and> \<not> addToQueueDisabled (handleSelectOption ''memory'' ''ram-128g'' ''128 GB'' sample_confirmed)"
  by (simp add: confirmationState_def addToQueueDisabled_def isRealChange_def
        handleSelectOption_def Let_def sample_confirmed_fields)

subsection \<open>A failed availability check\<close>

text \<open>
  Claim C5. When the awaited check of the selected configuration rejects, the two flags
  and the confirmation state, the selected options and the browser storage are as
  before the call, the failure toast, a destructive one, is added to the toasts, and
  nothing but the toasts and the in-progress flag is written at all.
\<close>

theorem check_failure_keeps_state:
  "configConfirmed (handleCheckConfigAvailability stringify srv Rejected s) = configConfirmed s
   \<and> configChanged (handleCheckConfigAvailability stringify srv Rejected s) = configChanged s
   \<and> confirmationState (handleCheckConfigAvailability stringify srv Rejected s)
       = confirmationState s
   \<and> getSelectedOptions (handleCheckConfigAvailability stringify srv Rejected s)
       = getSelectedOptions s
   \<and> localStorage (handleCheckConfigAvailability stringify srv Rejected s) = localStorage s
   \<and> toasts (handleCheckConfigAvailability stringify srv Rejected s)
       = toasts s @ [CheckFailedToast]
   \<and> destructive CheckFailedToast
   \<and> (handleCheckConfigAvailability stringify srv Rejected s)
        \<lparr>toasts := toasts s, isChecking := isChecking s\<rparr> = s"
  by (simp add: handleCheckConfigAvailability_def confirmationState_def getSelectedOptions_def)

subsection \<open>Submission\<close>

lemma createTasks_all_resolved:
  "\<forall>x \<in> set ds. createTask (serverConfig srv opts x) = Resolved \<Longrightarrow>
     createTasks createTask srv opts ds = (map (serverConfig srv opts) ds, Resolved)"
  by (induction ds) (simp_all add: Let_def)

lemma createTasks_first_rejected:
  "\<forall>x \<in> set pre. createTask (serverConfig srv opts x) = Resolved \<Longrightarrow>
   createTask (serverConfig srv opts d) = Rejected \<Longrightarrow>
     createTasks createTask srv opts (pre @ d # post)
       = (map (serverConfig srv opts) pre @ [serverConfig srv opts d], Rejected)"
  by (induction pre) (simp_all add: Let_def)

lemma createTasks_prefix:
  "\<exists>n \<le> length ds. fst (createTasks createTask srv opts ds)
                      = map (serverConfig srv opts) (take n ds)"
proof (induction ds)
  case Nil
  show ?case by simp
next
  case (Cons d ds)
  show ?case
  proof (cases "createTask (serverConfig srv opts d)")
    case Rejected
    then have "fst (createTasks createTask srv opts (d # ds))
                 = map (serverConfig srv opts) (take 1 (d # ds))"
      by (simp add: Let_def)
    then show ?thesis by (intro exI [of _ 1]) simp
  next
    case Resolved
    from Cons.IH obtain n where n: "n \<le> length ds"
      "fst (createTasks createTask srv opts ds) = map (serverConfig srv opts) (take n ds)"
      by blast
    obtain sent ended where p: "createTasks createTask srv opts ds = (sent, ended)"
      by (cases "createTasks createTask srv opts ds")
    with n(2) have "sent = map (serverConfig srv opts) (take n ds)" by simp
    with Resolved p have "fst (createTasks createTask srv opts (d # ds))
                 = map (serverConfig srv opts) (take (Suc n) (d # ds))"
      by (simp add: Let_def)
    with n(1) show ?thesis by (intro exI [of _ "Suc n"]) simp
  qed
qed

lemma handleAddToQueue_requests:
  "taskRequests (handleAddToQueue createTask srv s)
     = taskRequests s
       @ (if selectedDatacenters s = [] then []
          else fst (createTasks createTask srv (getSelectedOptions s) (selectedDatacenters s)))"
  by (simp add: handleAddToQueue_def split: prod.splits outcome.splits)

text \<open>
  Claim C8, as the code has it. With no datacenter selected the handler sends no
  request and raises the destructive toast that asks for a datacenter. With
  datacenters selected and every request accepted by the task service, the requests
  sent are those of the selected datacenters, one each and in their order. In every
  case the requests sent are those of an initial part of the selected datacenters, in
  order. The request of a datacenter is named by the plan's name followed by the
  datacenter in brackets, is for that datacenter and the plan's code, and carries the
  selected options and the retry policy of unlimited attempts (-1) at an interval of 60
  seconds.
\<close>

theorem add_to_queue_one_task_per_datacenter:
  "(selectedDatacenters s = [] \<longrightarrow>
       taskRequests (handleAddToQueue createTask srv s) = taskRequests s
       \<and> toasts (handleAddToQueue createTask srv s) = toasts s @ [NoDatacenterToast]
       \<and> destructive NoDatacenterToast)
   \<and> (selectedDatacenters s \<noteq> []
        \<and> (\<forall>d \<in> set (selectedDatacenters s).
               createTask (serverConfig srv (getSelectedOptions s) d) = Resolved) \<longrightarrow>
       taskRequests (handleAddToQueue createTask srv s)
         = taskRequests s
           @ map (serverConfig srv (getSelectedOptions s)) (selectedDatacenters s))
   \<and> (\<exists>n \<le> length (selectedDatacenters s).
         taskRequests (handleAddToQueue createTask srv s)
           = taskRequests s
             @ map (serverConfig srv (getSelectedOptions s)) (take n (selectedDatacenters s)))
   \<and> name (serverConfig srv opts d) = server_name srv @ '' ('' @ d @ '')''
   \<and> planCode (serverConfig srv opts d) = server_planCode srv
   \<and> datacenter (serverConfig srv opts d) = d
   \<and> options (serverConfig srv opts d) = opts
   \<and> maxRetries (serverConfig srv opts d) = - 1
   \<and> taskInterval (serverConfig srv opts d) = 60"
proof -
  have a: "selectedDatacenters s = [] \<longrightarrow>
       taskRequests (handleAddToQueue createTask srv s) = taskRequests s
       \<and> toasts (handleAddToQueue createTask srv s) = toasts s @ [NoDatacenterToast]
       \<and> destructive NoDatacenterToast"
    by (simp add: handleAddToQueue_def)
  have b: "selectedDatacenters s \<noteq> []
        \<and> (\<forall>d \<in> set (selectedDatacenters s).
               createTask (serverConfig srv (getSelectedOptions s) d) = Resolved) \<longrightarrow>
       taskRequests (handleAddToQueue createTask srv s)
         = taskRequests s
           @ map (serverConfig srv (getSelectedOptions s)) (selectedDatacenters s)"
    by (simp add: handleAddToQueue_requests createTasks_all_resolved)
  have c: "\<exists>n \<le> length (selectedDatacenters s).
         taskRequests (handleAddToQueue createTask srv s)
           = taskRequests s
             @ map (serverConfig srv (getSelectedOptions s)) (take n (selectedDatacenters s))"
  proof (cases "selectedDatacenters s = []")
    case True
    then show ?thesis by (simp add: handleAddToQueue_requests)
  next
    case False
    with createTasks_prefix [of "selectedDatacenters s" createTask srv "getSelectedOptions s"]
    show ?thesis by (simp add: handleAddToQueue_requests)
  qed
  have d: "name (serverConfig srv opts d) = server_name srv @ '' ('' @ d @ '')''
   \<and> planCode (serverConfig srv opts d) = server_planCode srv
   \<and> datacenter (serverConfig srv opts d) = d
   \<and> options (serverConfig srv opts d) = opts
   \<and> maxRetries (serverConfig srv opts d) = - 1
   \<and> taskInterval (serverConfig srv opts d) = 60"
    by (simp add: serverConfig_def)
  from a b c d show ?thesis by (intro conjI) (simp_all only: simp_thms)
qed

theorem add_to_queue_one_task_per_datacenter_witness:
  "taskRequests (handleAddToQueue (\<lambda>cfg. Resolved) sample_server sample_two)
     = [serverConfig sample_server [(''memory'', ''ram-64g'')] ''gra'',
        serverConfig sample_server [(''memory'', ''ram-64g'')] ''rbx'']
   \<and> name (serverConfig sample_server [(''memory'', ''ram-64g'')] ''gra'') = ''KS-A (gra)''
   \<and> taskRequests (handleAddToQueue (\<lambda>cfg. Resolved) sample_server (clearDatacenters sample_two))
       = []"
proof -
  have h: "selectedDatacenters sample_two \<noteq> []
        \<and> (\<forall>d \<in> set (selectedDatacenters sample_two).
               (\<lambda>cfg. Resolved) (serverConfig sample_server (getSelectedOptions sample_two) d)
                 = Resolved)"
    by (simp add: sample_two_fields)
  have e: "selectedDatacenters (clearDatacenters sample_two) = []"
    "taskRequests (clearDatacenters sample_two) = []"
    by (simp_all add: clearDatacenters_def sample_two_fields)
  note t = add_to_queue_one_task_per_datacenter
  from t [of sample_two "\<lambda>cfg. Resolved" sample_server "[(''memory'', ''ram-64g'')]" "''gra''"] h
  have 1: "taskRequests (handleAddToQueue (\<lambda>cfg. Resolved) sample_server sample_two)
         = taskRequests sample_two
           @ map (serverConfig sample_server (getSelectedOptions sample_two))
               (selectedDatacenters sample_two)"
    by blast
  from t [of sample_two "\<lambda>cfg. Resolved" sample_server "[(''memory'', ''ram-64g'')]" "''gra''"]
  have 2: "name (serverConfig sample_server [(''memory'', ''ram-64g'')] ''gra'')
             = server_name sample_server @ '' ('' @ ''gra'' @ '')''"
    by blast
  from t [of "clearDatacenters sample_two" "\<lambda>cfg. Resolved" sample_server] e
  have 3: "taskRequests (handleAddToQueue (\<lambda>cfg. Resolved) sample_server
             (clearDatacenters sample_two)) = []"
    by simp
  from 1 2 3 show ?thesis by (simp add: sample_two_fields sample_server_def)
qed

text \<open>
  The statement of C8, one request for each selected datacenter of every non-empty
  selection, fails on the sample card with \<open>gra\<close> and \<open>rbx\<close> selected when the task
  service rejects the request for \<open>gra\<close>: one request is built and sent, for two
  datacenters.
\<close>

theorem add_to_queue_partial_counterexample:
  "selectedDatacenters sample_two = [''gra'', ''rbx'']
   \<and> map datacenter (taskRequests (handleAddToQueue reject_gra sample_server sample_two))
       = [''gra'']
   \<and> length (taskRequests (handleAddToQueue reject_gra sample_server sample_two))
       \<noteq> length (selectedDatacenters sample_two)"
proof -
  have r: "reject_gra (serverConfig sample_server (getSelectedOptions sample_two) ''gra'')
             = Rejected"
    by (simp add: reject_gra_def serverConfig_def)
  have t: "taskRequests (handleAddToQueue reject_gra sample_server sample_two)
       = [serverConfig sample_server (getSelectedOptions sample_two) ''gra'']"
    by (simp add: handleAddToQueue_requests sample_two_fields(1,3) Let_def r)
  show ?thesis
    unfolding t by (simp add: sample_two_fields(1) serverConfig_def)
qed

text \<open>
  Claim C4, as the code has it. When the request of one selected datacenter is
  rejected, those before it having been accepted, the requests sent are those of the
  datacenters up to and including the rejected one: the accepted requests stay sent,
  and no request is sent for the datacenters after it. The selected datacenters, the
  two flags and the selected options are as before, the failure toast is raised after
  the toast that announces the submission, nothing is navigated to, and the
  in-progress flag is cleared, so that the user can submit again.
\<close>

theorem add_to_queue_stops_at_first_failure:
  assumes "selectedDatacenters s = pre @ d # post"
    and "\<forall>x \<in> set pre. createTask (serverConfig srv (getSelectedOptions s) x) = Resolved"
    and "createTask (serverConfig srv (getSelectedOptions s) d) = Rejected"
  shows "taskRequests (handleAddToQueue createTask srv s)
           = taskRequests s @ map (serverConfig srv (getSelectedOptions s)) pre
             @ [serverConfig srv (getSelectedOptions s) d]
         \<and> selectedDatacenters (handleAddToQueue createTask srv s) = selectedDatacenters s
         \<and> configConfirmed (handleAddToQueue createTask srv s) = configConfirmed s
         \<and> configChanged (handleAddToQueue createTask srv s) = configChanged s
         \<and> getSelectedOptions (handleAddToQueue createTask srv s) = getSelectedOptions s
         \<and> toasts (handleAddToQueue createTask srv s)
             = toasts s @ [AddingToast (server_name srv), AddFailedToast]
         \<and> navigations (handleAddToQueue createTask srv s) = navigations s
         \<and> \<not> isAddingToQueue (handleAddToQueue createTask srv s)"
proof -
  have ct: "createTasks createTask srv (getSelectedOptions s) (selectedDatacenters s)
          = (map (serverConfig srv (getSelectedOptions s)) pre
               @ [serverConfig srv (getSelectedOptions s) d], Rejected)"
    unfolding assms(1) using assms(2,3) by (rule createTasks_first_rejected)
  have ne: "selectedDatacenters s \<noteq> []" using assms(1) by simp
  have "handleAddToQueue createTask srv s =
          s\<lparr>toasts := toasts s @ [AddingToast (server_name srv), AddFailedToast],
            taskRequests := taskRequests s @ map (serverConfig srv (getSelectedOptions s)) pre
                              @ [serverConfig srv (getSelectedOptions s) d],
            isAddingToQueue := False\<rparr>"
    using ne by (simp add: handleAddToQueue_def ct)
  then show ?thesis
    by (simp add: getSelectedOptions_def)
qed

theorem add_to_queue_stops_at_first_failure_witness:
  "taskRequests (handleAddToQueue reject_gra sample_server sample_two)
     = [serverConfig sample_server [(''memory'', ''ram-64g'')] ''gra'']
   \<and> selectedDatacenters (handleAddToQueue reject_gra sample_server sample_two)
       = [''gra'', ''rbx'']
   \<and> configConfirmed (handleAddToQueue reject_gra sample_server sample_two)"
proof -
  have h1: "selectedDatacenters sample_two = [] @ ''gra'' # [''rbx'']"
    by (simp add: sample_two_fields)
  have h2: "\<forall>x \<in> set []. reject_gra (serverConfig sample_server (getSelectedOptions sample_two) x)
              = Resolved" by simp
  have h3: "reject_gra (serverConfig sample_server (getSelectedOptions sample_two) ''gra'')
              = Rejected"
    by (simp add: reject_gra_def serverConfig_def)
  from add_to_queue_stops_at_first_failure [OF h1 h2 h3] show ?thesis
    by (simp add: sample_two_fields)
qed

text \<open>
  The statement of C4 fails on the sample card with \<open>gra\<close> and \<open>rbx\<close> selected, when the
  task service rejects the request for \<open>gra\<close> and would accept the one for \<open>rbx\<close>: the
  request for \<open>gra\<close> is the only one sent, and none is sent for \<open>rbx\<close>.
\<close>

theorem add_to_queue_failure_counterexample:
  "selectedDatacenters sample_two = [''gra'', ''rbx'']
   \<and> reject_gra (serverConfig sample_server (getSelectedOptions sample_two) ''rbx'') = Resolved
   \<and> taskRequests (handleAddToQueue reject_gra sample_server sample_two)
       = [serverConfig sample_server (getSelectedOptions sample_two) ''gra'']
   \<and> serverConfig sample_server (getSelectedOptions sample_two) ''rbx''
       \<notin> set (taskRequests (handleAddToQueue reject_gra sample_server sample_two))"
proof -
  have r: "reject_gra (serverConfig sample_server (getSelectedOptions sample_two) ''gra'')
             = Rejected"
    "reject_gra (serverConfig sample_server (getSelectedOptions sample_two) ''rbx'') = Resolved"
    by (simp_all add: reject_gra_def serverConfig_def)
  have t: "taskRequests (handleAddToQueue reject_gra sample_server sample_two)
       = [serverConfig sample_server (getSelectedOptions sample_two) ''gra'']"
    by (simp add: handleAddToQueue_requests sample_two_fields(1,3) Let_def r)
  have n: "serverConfig sample_server (getSelectedOptions sample_two) ''rbx''
             \<noteq> serverConfig sample_server (getSelectedOptions sample_two) ''gra''"
    by (simp add: serverConfig_def)
  from r t n show ?thesis by (simp add: sample_two_fields(1))
qed

subsection \<open>Restoring a saved configuration\<close>

lemma defaultSelections_flags:
  "configConfirmed (defaultSelections srv s) = configConfirmed s"
  "configChanged (defaultSelections srv s) = configChanged s"
  "localStorage (defaultSelections srv s) = localStorage s"
  by (simp_all add: defaultSelections_def Let_def split: option.splits)

lemma defaultSelections_storage:
  "defaultSelections srv (s\<lparr>localStorage := m\<rparr>) = (defaultSelections srv s)\<lparr>localStorage := m\<rparr>"
  by (simp add: defaultSelections_def Let_def split: option.splits)

lemma initialState_storage:
  "initialState srv m = (initialState srv m')\<lparr>localStorage := m\<rparr>"
  by (simp add: initialState_def)

text \<open>The default of a family: the code of the first option whose text is the plan's own.\<close>

lemma defaultSelections_selected:
  "selectedMemory (defaultSelections srv s) =
     (case find (\<lambda>opt. option_formatted opt = server_memory srv) (server_memoryOptions srv) of
        Some opt \<Rightarrow> Some (option_code opt) | None \<Rightarrow> selectedMemory s)"
  "selectedStorage (defaultSelections srv s) =
     (case find (\<lambda>opt. option_formatted opt = server_storage srv) (server_storageOptions srv) of
        Some opt \<Rightarrow> Some (option_code opt) | None \<Rightarrow> selectedStorage s)"
  "selectedBandwidth (defaultSelections srv s) =
     (case find (\<lambda>opt. option_formatted opt = server_bandwidth srv)
             (server_bandwidthOptions srv) of
        Some opt \<Rightarrow> Some (option_code opt) | None \<Rightarrow> selectedBandwidth s)"
  "selectedVrack (defaultSelections srv s) =
     (case find (\<lambda>opt. option_formatted opt = server_vrack srv) (server_vrackOptions srv) of
        Some opt \<Rightarrow> Some (option_code opt) | None \<Rightarrow> selectedVrack s)"
  by (simp_all add: defaultSelections_def Let_def split: option.splits)

lemma defaultSelections_displayed:
  "displayedMemory (defaultSelections srv s) = displayedMemory s"
  "displayedStorage (defaultSelections srv s) = displayedStorage s"
  "displayedBandwidth (defaultSelections srv s) = displayedBandwidth s"
  "displayedVrack (defaultSelections srv s) =
     (case find (\<lambda>opt. option_formatted opt = server_vrack srv) (server_vrackOptions srv) of
        Some opt \<Rightarrow> displayedVrack s | None \<Rightarrow> label_no_vrack)"
  by (simp_all add: defaultSelections_def Let_def split: option.splits)

lemma defaultSelections_rest:
  "selectedDatacenters (defaultSelections srv s) = selectedDatacenters s"
  "toasts (defaultSelections srv s) = toasts s"
  "taskRequests (defaultSelections srv s) = taskRequests s"
  by (simp_all add: defaultSelections_def Let_def split: option.splits)

lemma sample_full_finds:
  "find (\<lambda>opt. option_formatted opt = server_memory sample_full_server)
     (server_memoryOptions sample_full_server)
     = Some \<lparr>option_code = ''ram-32g'', option_formatted = ''32 GB''\<rparr>"
  "find (\<lambda>opt. option_formatted opt = server_storage sample_full_server)
     (server_storageOptions sample_full_server)
     = Some \<lparr>option_code = ''softraid-2x960nvme'', option_formatted = ''2x960 GB''\<rparr>"
  "find (\<lambda>opt. option_formatted opt = server_bandwidth sample_full_server)
     (server_bandwidthOptions sample_full_server)
     = Some \<lparr>option_code = ''bandwidth-500'', option_formatted = ''500 Mbps''\<rparr>"
  "find (\<lambda>opt. option_formatted opt = server_vrack sample_full_server)
     (server_vrackOptions sample_full_server)
     = Some \<lparr>option_code = ''vrack-bandwidth-100'', option_formatted = ''100 Mbps''\<rparr>"
  by (simp_all add: sample_full_server_def)

lemma sample_finds:
  "find (\<lambda>opt. option_formatted opt = server_memory sample_server)
     (server_memoryOptions sample_server)
     = Some \<lparr>option_code = ''ram-64g'', option_formatted = ''64 GB''\<rparr>"
  "find (\<lambda>opt. option_formatted opt = server_storage sample_server)
     (server_storageOptions sample_server) = None"
  "find (\<lambda>opt. option_formatted opt = server_vrack sample_server)
     (server_vrackOptions sample_server) = None"
  by (simp_all add: sample_server_def)

text \<open>
  Claim C10. When a snapshot is stored for the plan and reading it throws, the load
  ends in the plan's default selections: for each of the four families the selected
  code is that of the first option whose text equals the plan's own specification for
  the family, and none when there is no such option; the displayed texts are the
  plan's own, the one for the vRack being "no vRack" when no vRack option matches. The
  configuration is neither confirmed nor changed, so the confirmation state is the
  default one; no datacenter is selected and no toast is raised. The state reached is
  the one reached with no snapshot stored, the stored text apart.
\<close>

theorem unparseable_snapshot_falls_back:
  assumes "parse savedConfigStr = None"
  shows
    "(let loaded = initEffect parse srv
                     (initialState srv (storage(confirmedConfigKey srv \<mapsto> savedConfigStr)))
      in selectedMemory loaded
           = map_option option_code
               (find (\<lambda>opt. option_formatted opt = server_memory srv) (server_memoryOptions srv))
         \<and> selectedStorage loaded
           = map_option option_code
               (find (\<lambda>opt. option_formatted opt = server_storage srv)
                  (server_storageOptions srv))
         \<and> selectedBandwidth loaded
           = map_option option_code
               (find (\<lambda>opt. option_formatted opt = server_bandwidth srv)
                  (server_bandwidthOptions srv))
         \<and> selectedVrack loaded
           = map_option option_code
               (find (\<lambda>opt. option_formatted opt = server_vrack srv) (server_vrackOptions srv))
         \<and> displayedMemory loaded = server_memory srv
         \<and> displayedStorage loaded = server_storage srv
         \<and> displayedBandwidth loaded = server_bandwidth srv
         \<and> displayedVrack loaded
           = (if find (\<lambda>opt. option_formatted opt = server_vrack srv) (server_vrackOptions srv)
                 = None
              then label_no_vrack else server_vrack srv)
         \<and> \<not> configConfirmed loaded
         \<and> \<not> configChanged loaded
         \<and> confirmationState loaded = Default
         \<and> selectedDatacenters loaded = []
         \<and> toasts loaded = []
         \<and> loaded
           = (initEffect parse srv (initialState srv (storage(confirmedConfigKey srv := None))))
               \<lparr>localStorage := storage(confirmedConfigKey srv \<mapsto> savedConfigStr)\<rparr>)"
proof -
  let ?m = "storage(confirmedConfigKey srv \<mapsto> savedConfigStr)"
  let ?e = "storage(confirmedConfigKey srv := None)"
  let ?d = "defaultSelections srv (initialState srv ?m)"
  have a: "initEffect parse srv (initialState srv ?m) = ?d"
    using assms by (simp add: initEffect_def initialState_def)
  have b: "initEffect parse srv (initialState srv ?e)
             = defaultSelections srv (initialState srv ?e)"
    by (simp add: initEffect_def initialState_def)
  have c: "?d = (defaultSelections srv (initialState srv ?e))\<lparr>localStorage := ?m\<rparr>"
    by (subst initialState_storage [of srv ?m ?e]) (rule defaultSelections_storage)
  have sel: "selectedMemory ?d
           = map_option option_code
               (find (\<lambda>opt. option_formatted opt = server_memory srv) (server_memoryOptions srv))"
    "selectedStorage ?d
           = map_option option_code
               (find (\<lambda>opt. option_formatted opt = server_storage srv)
                  (server_storageOptions srv))"
    "selectedBandwidth ?d
           = map_option option_code
               (find (\<lambda>opt. option_formatted opt = server_bandwidth srv)
                  (server_bandwidthOptions srv))"
    "selectedVrack ?d
           = map_option option_code
               (find (\<lambda>opt. option_formatted opt = server_vrack srv) (server_vrackOptions srv))"
    by (simp_all add: defaultSelections_selected initialState_def split: option.splits)
  have dis: "displayedMemory ?d = server_memory srv"
    "displayedStorage ?d = server_storage srv"
    "displayedBandwidth ?d = server_bandwidth srv"
    "displayedVrack ?d
           = (if find (\<lambda>opt. option_formatted opt = server_vrack srv) (server_vrackOptions srv)
                 = None
              then label_no_vrack else server_vrack srv)"
    by (simp_all add: defaultSelections_displayed initialState_def split: option.splits)
  have fl: "\<not> configConfirmed ?d" "\<not> configChanged ?d"
    by (simp_all add: defaultSelections_flags initialState_def)
  then have st: "confirmationState ?d = Default"
    by (simp add: confirmationState_def)
  have rest: "selectedDatacenters ?d = []" "toasts ?d = []"
    by (simp_all add: defaultSelections_rest initialState_def)
  show ?thesis
    unfolding Let_def a b using c sel dis fl st rest by (intro conjI)
qed

theorem unparseable_snapshot_falls_back_witness:
  "sample_parse ''{not json'' = None
   \<and> (let loaded = initEffect sample_parse sample_full_server
                      (initialState sample_full_server
                         (Map.empty(confirmedConfigKey sample_full_server \<mapsto> ''{not json'')))
      in selectedMemory loaded = Some ''ram-32g''
         \<and> selectedStorage loaded = Some ''softraid-2x960nvme''
         \<and> selectedBandwidth loaded = Some ''bandwidth-500''
         \<and> selectedVrack loaded = Some ''vrack-bandwidth-100''
         \<and> displayedVrack loaded = ''100 Mbps''
         \<and> confirmationState loaded = Default)
   \<and> (let loaded = initEffect sample_parse sample_server
                      (initialState sample_server
                         (Map.empty(confirmedConfigKey sample_server \<mapsto> ''{not json'')))
      in selectedMemory loaded = Some ''ram-64g''
         \<and> selectedStorage loaded = None
         \<and> selectedVrack loaded = None
         \<and> displayedVrack loaded = label_no_vrack
         \<and> confirmationState loaded = Default)"
proof -
  have h: "sample_parse ''{not json'' = None" by (simp add: sample_parse_def)
  note f = unparseable_snapshot_falls_back
         [where parse = sample_parse and savedConfigStr = "''{not json''"
            and srv = sample_full_server and storage = Map.empty, OF h, unfolded Let_def]
  note g = unparseable_snapshot_falls_back
         [where parse = sample_parse and savedConfigStr = "''{not json''"
            and srv = sample_server and storage = Map.empty, OF h, unfolded Let_def]
  have v: "server_vrack sample_full_server = ''100 Mbps''"
    by (simp add: sample_full_server_def)
  have 1: "selectedMemory (initEffect sample_parse sample_full_server
                      (initialState sample_full_server
                         (Map.empty(confirmedConfigKey sample_full_server \<mapsto> ''{not json''))))
             = Some ''ram-32g''"
    using f [THEN conjunct1] by (simp add: sample_full_finds)
  have 2: "selectedStorage (initEffect sample_parse sample_full_server
                      (initialState sample_full_server
                         (Map.empty(confirmedConfigKey sample_full_server \<mapsto> ''{not json''))))
             = Some ''softraid-2x960nvme''"
    using f [THEN conjunct2, THEN conjunct1] by (simp add: sample_full_finds)
  have 3: "selectedBandwidth (initEffect sample_parse sample_full_server
                      (initialState sample_full_server
                         (Map.empty(confirmedConfigKey sample_full_server \<mapsto> ''{not json''))))
             = Some ''bandwidth-500''"
    using f [THEN conjunct2, THEN conjunct2, THEN conjunct1] by (simp add: sample_full_finds)
  have 4: "selectedVrack (initEffect sample_parse sample_full_server
                      (initialState sample_full_server
                         (Map.empty(confirmedConfigKey sample_full_server \<mapsto> ''{not json''))))
             = Some ''vrack-bandwidth-100''"
    using f [THEN conjunct2, THEN conjunct2, THEN conjunct2, THEN conjunct1]
    by (simp add: sample_full_finds)
  note c7 = conjunct2 [THEN conjunct2, THEN conjunct2, THEN conjunct2, THEN conjunct2,
              THEN conjunct2, THEN conjunct2]
  have 5: "displayedVrack (initEffect sample_parse sample_full_server
                      (initialState sample_full_server
                         (Map.empty(confirmedConfigKey sample_full_server \<mapsto> ''{not json''))))
             = ''100 Mbps''"
    unfolding f [THEN c7, THEN conjunct1] sample_full_finds(4) by (simp add: v)
  note 6 = f [THEN c7, THEN conjunct2, THEN conjunct2, THEN conjunct2, THEN conjunct1]
  have 7: "selectedMemory (initEffect sample_parse sample_server
                      (initialState sample_server
                         (Map.empty(confirmedConfigKey sample_server \<mapsto> ''{not json''))))
             = Some ''ram-64g''"
    using g [THEN conjunct1] by (simp add: sample_finds)
  have 8: "selectedStorage (initEffect sample_parse sample_server
                      (initialState sample_server
                         (Map.empty(confirmedConfigKey sample_server \<mapsto> ''{not json''))))
             = None"
    using g [THEN conjunct2, THEN conjunct1] by (simp add: sample_finds)
  have 9: "selectedVrack (initEffect sample_parse sample_server
                      (initialState sample_server
                         (Map.empty(confirmedConfigKey sample_server \<mapsto> ''{not json''))))
             = None"
    using g [THEN conjunct2, THEN conjunct2, THEN conjunct2, THEN conjunct1]
    by (simp add: sample_finds)
  have 10: "displayedVrack (initEffect sample_parse sample_server
                      (initialState sample_server
                         (Map.empty(confirmedConfigKey sample_server \<mapsto> ''{not json''))))
             = label_no_vrack"
    using g [THEN c7, THEN conjunct1] by (simp add: sample_finds)
  note 11 = g [THEN c7, THEN conjunct2, THEN conjunct2, THEN conjunct2, THEN conjunct1]
  show ?thesis
    unfolding Let_def using h 1 2 3 4 5 6 7 8 9 10 11 by (intro conjI)
qed

end
